theory Spec2Isabelle
  imports Main "HOL-Library.AList"
begin

section \<open>Python objects seen by \<open>essmc2/utils/registry.py\<close>\<close>

text \<open>
  Signature metadata comes from \<open>inspect.signature\<close>. The introspector only passes
  default values through, so a default is recorded by its content.
\<close>

datatype defval =
    DNone
  | DBool bool
  | DInt int
  | DStr string
  | DList "defval list"
  | DDict "(string \<times> defval) list"
  | DOther string

text \<open>The five values of \<open>inspect.Parameter.kind\<close>.\<close>

datatype kind =
    POSITIONAL_ONLY
  | POSITIONAL_OR_KEYWORD
  | VAR_POSITIONAL
  | KEYWORD_ONLY
  | VAR_KEYWORD

text \<open>
  An annotation is used by the source in two ways: it is called with no argument
  (\<open>ann_call\<close> is the value returned, \<open>None\<close> when the call raises) and its
  \<open>__name__\<close> is read (\<open>ann_name\<close> is \<open>None\<close> when the attribute is missing).
\<close>

datatype annotation = Annotation (ann_call: "defval option") (ann_name: "string option")

text \<open>
  One entry of \<open>inspect.signature(...).parameters\<close>. \<open>None\<close> stands for
  \<open>inspect.Parameter.empty\<close> in \<open>par_default\<close> and \<open>par_annotation\<close>.
  The names of one signature are pairwise distinct: Python rejects a duplicate argument.
\<close>

datatype parameter = Parameter
  (par_name: string)
  (par_kind: kind)
  (par_default: "defval option")
  (par_annotation: "annotation option")

text \<open>
  A class: \<open>__name__\<close>, the \<open>params\<close> that \<open>docstring_parser\<close> finds in its
  \<open>__doc__\<close> (argument name and description, the description possibly \<open>None\<close>),
  the signature of the \<open>__init__\<close> that attribute lookup resolves for it (its own or an
  inherited one, with the \<open>self\<close> parameter), the rest of its \<open>__mro__\<close> after the
  class itself, and the truth value of the class object (true, unless its metaclass
  defines \<open>__bool__\<close> or \<open>__len__\<close> otherwise). A function: \<open>__name__\<close>, the parsed
  \<open>__doc__\<close>, its signature; a function object is always true.
\<close>

datatype pyclass = PyClass
  (cls_name: string)
  (cls_doc: "(string \<times> string option) list")
  (cls_init: "parameter list")
  (cls_bases: "pyclass list")
  (cls_truth: bool)

datatype pyfunction = PyFunction
  (fn_name: string)
  (fn_doc: "(string \<times> string option) list")
  (fn_params: "parameter list")

fun mro :: "pyclass \<Rightarrow> pyclass list" where
  "mro (PyClass n d s bs b) = PyClass n d s bs b # bs"

text \<open>
  Run-time values. Lists and dicts are mutable objects: a value refers to them by their
  address in the store. Classes and functions are values of their own.
\<close>

type_synonym addr = nat

datatype pyval =
    VNone
  | VBool bool
  | VInt int
  | VStr string
  | VRef addr
  | VClass pyclass
  | VFunction pyfunction

text \<open>\<open>inspect.isclass\<close>, \<open>inspect.isfunction\<close> and the \<open>__name__\<close> attribute.\<close>

fun isclass :: "pyval \<Rightarrow> bool" where
  "isclass (VClass c) = True"
| "isclass _ = False"

fun isfunction :: "pyval \<Rightarrow> bool" where
  "isfunction (VFunction f) = True"
| "isfunction _ = False"

fun dunder_name :: "pyval \<Rightarrow> string option" where
  "dunder_name (VClass c) = Some (cls_name c)"
| "dunder_name (VFunction f) = Some (fn_name f)"
| "dunder_name _ = None"

subsection \<open>Exceptions and messages\<close>

text \<open>
  The exception classes the module raises, any other class below \<open>Exception\<close>, and
  the classes that derive from \<open>BaseException\<close> only (\<open>KeyboardInterrupt\<close>,
  \<open>SystemExit\<close>, \<open>GeneratorExit\<close>), which \<open>except Exception\<close> does not catch.
\<close>

datatype exc_type =
    TypeError
  | KeyError
  | ValueError
  | AttributeError
  | Exception
  | OtherException string
  | BaseExceptionOnly string

fun is_Exception :: "exc_type \<Rightarrow> bool" where
  "is_Exception (BaseExceptionOnly n) = False"
| "is_Exception _ = True"

text \<open>
  An f-string keeps its structure: literal text and interpolated fields. \<open>Fmt v\<close> is
  \<open>{v}\<close>, \<open>FmtType v\<close> is \<open>{type(v)}\<close>, \<open>FmtTuple\<close> is a tuple of strings and
  \<open>FmtExc e\<close> is \<open>{e}\<close> for a caught exception. An exception carries its class, its
  message and \<open>__context__\<close>, the exception that was being handled when it was raised.
\<close>

datatype fpart =
    Lit string
  | Fmt pyval
  | FmtType pyval
  | FmtTuple "string list"
  | FmtExc pyexc
and pyexc = PyExc (exc_class: exc_type) (exc_msg: "fpart list") (exc_context: "pyexc option")

type_synonym message = "fpart list"

section \<open>Docstring parameter extractor and signature introspector\<close>

text \<open>
  Modelled from the spec: \<open>ValueComment\<close> (\<open>essmc2/utils/config.py\<close> is not among the
  sources) is the pair of a default value and a descriptive text.
\<close>

datatype ValueComment = ValueComment (vc_value: defval) (vc_comment: string)

type_synonym template = "(string \<times> ValueComment) list"

text \<open>
  \<open>_get_doc_params\<close>: the argument is \<open>parser.parse(doc_str).params\<close>; an
  \<open>OrderedDict\<close> keeps the place of a key that is assigned again.
\<close>

definition get_doc_params :: "(string \<times> string option) list \<Rightarrow> (string \<times> string) list" where
  "get_doc_params params =
     fold (\<lambda>(arg_name, description) ret.
             case description of Some desc \<Rightarrow> AList.update arg_name desc ret | None \<Rightarrow> ret)
          params []"

text \<open>
  The default value and the start of the text of one parameter (lines 103 to 117 and, the
  same text, 146 to 160); \<open>owner\<close> is \<open>type_c.__name__\<close> or \<open>func.__name__\<close>.
  When the annotation's call succeeds and its \<open>__name__\<close> is missing, the value is kept
  and the bare \<open>except\<close> drops the rest of the text.
\<close>

definition synthesize :: "string \<Rightarrow> parameter \<Rightarrow> defval \<times> string" where
  "synthesize owner p =
     (case par_default p of
        Some d \<Rightarrow> (d, '''')
      | None \<Rightarrow>
          (let default_doc = ''TODO: Complete this value for type '' @ owner in
           case par_annotation p of
             None \<Rightarrow> (DNone, default_doc @ ''.'')
           | Some ann \<Rightarrow>
               (case ann_call ann of
                  None \<Rightarrow> (DNone, default_doc @ ''.'')
                | Some try_value \<Rightarrow>
                    (case ann_name ann of
                       None \<Rightarrow> (try_value, default_doc @ ''.'')
                     | Some n \<Rightarrow>
                         (try_value,
                          default_doc @ '', use default from type '' @ n @ ''()'' @ ''.'')))))"

text \<open>\<open>len(doc.split('\n'))\<close>: one piece more than there are newlines.\<close>

definition split_len :: "string \<Rightarrow> nat" where
  "split_len doc = Suc (length (filter (\<lambda>c. c = CHR 0x0A) doc))"

definition append_doc :: "(string \<times> string) list \<Rightarrow> string \<Rightarrow> string \<Rightarrow> string" where
  "append_doc param_doc_dict key default_doc =
     (case map_of param_doc_dict key of
        None \<Rightarrow> default_doc
      | Some doc \<Rightarrow>
          if split_len doc \<le> 1 \<or> length default_doc = 0 then default_doc @ doc
          else default_doc @ [CHR 0x0A] @ doc)"

definition entry_for :: "string \<Rightarrow> (string \<times> string) list \<Rightarrow> parameter \<Rightarrow> ValueComment" where
  "entry_for owner param_doc_dict p =
     (case synthesize owner p of
        (default_value, default_doc) \<Rightarrow>
          ValueComment default_value (append_doc param_doc_dict (par_name p) default_doc))"

text \<open>One round of the loop over \<open>cls.__mro__\<close> (lines 94 to 126).\<close>

definition class_level :: "pyclass \<Rightarrow> template \<Rightarrow> template" where
  "class_level type_c args =
     (let param_doc_dict = get_doc_params (cls_doc type_c);
          parameters = filter (\<lambda>p. par_name p \<noteq> ''self'') (cls_init type_c)
      in fold (\<lambda>p args.
                 if par_kind p \<noteq> POSITIONAL_OR_KEYWORD then args
                 else if par_name p \<in> fst ` set args then args
                 else args @ [(par_name p, entry_for (cls_name type_c) param_doc_dict p)])
              parameters args)"

definition get_class_arguments :: "pyclass \<Rightarrow> template" where
  "get_class_arguments cls = fold class_level (mro cls) []"

definition get_function_arguments :: "pyfunction \<Rightarrow> template" where
  "get_function_arguments func =
     (let param_doc_dict = get_doc_params (fn_doc func)
      in fold (\<lambda>p args.
                 if par_kind p = VAR_KEYWORD
                 then AList.update (par_name p) (ValueComment (DDict []) '''') args
                 else if par_kind p = VAR_POSITIONAL
                 then AList.update (par_name p) (ValueComment (DList []) '''') args
                 else if par_kind p \<noteq> POSITIONAL_OR_KEYWORD then args
                 else AList.update (par_name p) (entry_for (fn_name func) param_doc_dict p) args)
              (fn_params func) [])"

text \<open>
  The ordinary parameter of a given name in the constructor signature of one class, as
  the loop of \<open>get_class_arguments\<close> sees it (\<open>self\<close> left out, the other kinds
  skipped), and the template entry that this class gives for the name.
\<close>

definition declared :: "pyclass \<Rightarrow> string \<Rightarrow> parameter option" where
  "declared c key =
     find (\<lambda>p. par_name p = key \<and> par_kind p = POSITIONAL_OR_KEYWORD)
          (filter (\<lambda>p. par_name p \<noteq> ''self'') (cls_init c))"

definition level_entry :: "pyclass \<Rightarrow> string \<Rightarrow> ValueComment option" where
  "level_entry c key =
     map_option (entry_for (cls_name c) (get_doc_params (cls_doc c))) (declared c key)"

text \<open>
  What one round of the loop of \<open>get_function_arguments\<close> assigns for a parameter:
  \<open>None\<close> when the round ends at \<open>continue\<close> without an assignment.
\<close>

definition function_entry :: "pyfunction \<Rightarrow> parameter \<Rightarrow> ValueComment option" where
  "function_entry func p =
     (if par_kind p = VAR_KEYWORD then Some (ValueComment (DDict []) '''')
      else if par_kind p = VAR_POSITIONAL then Some (ValueComment (DList []) '''')
      else if par_kind p \<noteq> POSITIONAL_OR_KEYWORD then None
      else Some (entry_for (fn_name func) (get_doc_params (fn_doc func)) p))"

section \<open>Registry\<close>

text \<open>
  The two maps are ordered dicts. Only the registration operations write them, after
  \<open>inspect.isclass\<close> or \<open>inspect.isfunction\<close>, so the class map holds classes and the
  function map holds functions. \<open>build_func\<close> and the process-wide \<open>REGISTRY_LIST\<close>
  take no part in the operations below.
\<close>

record Registry =
  name :: string
  allow_types :: "string list"
  class_map :: "(string \<times> pyclass) list"
  func_map :: "(string \<times> pyfunction) list"

definition Registry_init :: "string \<Rightarrow> string list \<Rightarrow> Registry" where
  "Registry_init nm allowed =
     \<lparr>name = nm, allow_types = allowed, class_map = [], func_map = []\<rparr>"

text \<open>
  \<open>self.class_map.get(req_type) or self.func_map.get(req_type)\<close>: \<open>dict.get\<close> gives
  \<open>None\<close> for a missing key, and \<open>or\<close> returns its left operand when that is true and
  its right operand otherwise. \<open>None\<close> is false; a class has the truth value its
  metaclass gives it.
\<close>

definition get :: "Registry \<Rightarrow> string \<Rightarrow> pyval" where
  "get self req_type =
     (let from_func_map =
            (case map_of (func_map self) req_type of
               Some f \<Rightarrow> VFunction f
             | None \<Rightarrow> VNone)
      in case map_of (class_map self) req_type of
           Some c \<Rightarrow> if cls_truth c then VClass c else from_func_map
         | None \<Rightarrow> from_func_map)"

definition contains :: "Registry \<Rightarrow> string \<Rightarrow> bool" where
  "contains self req_type =
     (req_type \<in> fst ` set (class_map self) \<or> req_type \<in> fst ` set (func_map self))"

text \<open>
  What a call leaves behind: the value returned or the exception raised, the warnings
  emitted through \<open>warnings.warn\<close>, and the registry as it is after the call.
\<close>

record 'a effect =
  outcome :: "pyexc + 'a"
  warned :: "message list"
  after :: Registry

definition raise :: "Registry \<Rightarrow> exc_type \<Rightarrow> message \<Rightarrow> 'a effect" where
  "raise self t msg = \<lparr>outcome = Inl (PyExc t msg None), warned = [], after = self\<rparr>"

text \<open>\<open>name or x.__name__\<close>: \<open>None\<close> and the empty string are false.\<close>

fun name_or :: "string option \<Rightarrow> string \<Rightarrow> string" where
  "name_or None d = d"
| "name_or (Some n) d = (if n = [] then d else n)"

text \<open>\<open>self.register_class(name)(cls)\<close>: the decorator applied.\<close>

definition register_class :: "Registry \<Rightarrow> string option \<Rightarrow> pyval \<Rightarrow> pyval effect" where
  "register_class self nm cls =
     (case cls of
        VClass c \<Rightarrow>
          if ''class'' \<notin> set (allow_types self)
          then raise self TypeError
                 [Lit ''Register '', Fmt (VStr (name self)), Lit '' only allows type '',
                  FmtTuple (allow_types self), Lit '', got class'']
          else
            (let module_name = name_or nm (cls_name c) in
             \<lparr>outcome = Inr cls,
              warned =
                (case map_of (class_map self) module_name of
                   Some old \<Rightarrow>
                     [[Lit ''Class '', Fmt (VStr module_name), Lit '' already registered by '',
                       Fmt (VClass old), Lit '', will be replaced by '', Fmt cls]]
                 | None \<Rightarrow> []),
              after = self\<lparr>class_map := AList.update module_name c (class_map self)\<rparr>\<rparr>)
      | _ \<Rightarrow> raise self TypeError [Lit ''Module must be type class, got '', FmtType cls])"

definition register_function :: "Registry \<Rightarrow> string option \<Rightarrow> pyval \<Rightarrow> pyval effect" where
  "register_function self nm func =
     (case func of
        VFunction f \<Rightarrow>
          if ''function'' \<notin> set (allow_types self)
          then raise self TypeError
                 [Lit ''Registry '', Fmt (VStr (name self)), Lit '' only allows type '',
                  FmtTuple (allow_types self), Lit '', got function'']
          else
            (let func_name = name_or nm (fn_name f) in
             \<lparr>outcome = Inr func,
              warned =
                (case map_of (func_map self) func_name of
                   Some old \<Rightarrow>
                     [[Lit ''Function '', Fmt (VStr func_name), Lit '' already registered by '',
                       Fmt (VFunction old), Lit '', will be replaced by '', Fmt func]]
                 | None \<Rightarrow> []),
              after = self\<lparr>func_map := AList.update func_name f (func_map self)\<rparr>\<rparr>)
      | _ \<Rightarrow> raise self TypeError [Lit ''Registry must be type function, got '', FmtType func])"

text \<open>
  \<open>register_by_hand\<close>. Every function object is a \<open>types.LambdaType\<close>, so the first
  test is on \<open>__name__\<close> alone. \<open>name or instance.__name__\<close> reads \<open>__name__\<close> only
  when \<open>name\<close> is false, and an object without that attribute raises there.
\<close>

definition is_lambda :: "pyval \<Rightarrow> bool" where
  "is_lambda inst = (isfunction inst \<and> dunder_name inst = Some ''<lambda>'')"

definition key_by_hand :: "pyval \<Rightarrow> string option \<Rightarrow> string option" where
  "key_by_hand inst nm =
     (case nm of
        Some n \<Rightarrow> if n \<noteq> [] then Some n else dunder_name inst
      | None \<Rightarrow> dunder_name inst)"

definition register_by_hand :: "Registry \<Rightarrow> pyval \<Rightarrow> string option \<Rightarrow> unit effect" where
  "register_by_hand self inst nm =
     (if is_lambda inst \<and> nm = None
      then raise self ValueError [Lit ''Lambda function needs a explicit name, got None'']
      else
        case key_by_hand inst nm of
          None \<Rightarrow>
            raise self AttributeError
              [FmtType inst, Lit '' object has no attribute __name__'']
        | Some key \<Rightarrow>
            (case inst of
               VFunction f \<Rightarrow>
                 if ''function'' \<notin> set (allow_types self)
                 then raise self TypeError
                        [Lit ''Registry '', Fmt (VStr key), Lit '' only allows type '',
                         FmtTuple (allow_types self), Lit '', got function'']
                 else
                   \<lparr>outcome = Inr (),
                    warned =
                      (case map_of (func_map self) key of
                         Some old \<Rightarrow>
                           [[Lit ''Function '', Fmt (VStr key), Lit '' already registered by '',
                             Fmt (VFunction old), Lit '', will be replaced by '', Fmt inst]]
                       | None \<Rightarrow> []),
                    after = self\<lparr>func_map := AList.update key f (func_map self)\<rparr>\<rparr>
             | VClass c \<Rightarrow>
                 if ''class'' \<notin> set (allow_types self)
                 then raise self TypeError
                        [Lit ''Registry '', Fmt (VStr key), Lit '' only allows type '',
                         FmtTuple (allow_types self), Lit '', got class'']
                 else
                   \<lparr>outcome = Inr (),
                    warned =
                      (case map_of (class_map self) key of
                         Some old \<Rightarrow>
                           [[Lit ''Class '', Fmt (VStr key), Lit '' already registered by '',
                             Fmt (VClass old), Lit '', will be replaced by '', Fmt inst]]
                       | None \<Rightarrow> []),
                    after = self\<lparr>class_map := AList.update key c (class_map self)\<rparr>\<rparr>
             | _ \<Rightarrow>
                 raise self TypeError
                   [Lit ''Expect instance to be a function or a class, got '', FmtType inst]))"

definition fetch_parameters :: "Registry \<Rightarrow> string \<Rightarrow> pyexc + template" where
  "fetch_parameters self req_type =
     (case map_of (class_map self) req_type of
        Some c \<Rightarrow> Inr (get_class_arguments c)
      | None \<Rightarrow>
          (case map_of (func_map self) req_type of
             Some f \<Rightarrow> Inr (get_function_arguments f)
           | None \<Rightarrow> Inl (PyExc ValueError [Lit ''Unexpected type '', Fmt (VStr req_type)] None)))"

section \<open>The store and \<open>copy.deepcopy\<close>\<close>

text \<open>
  The store holds the mutable objects; an address is an index into it and a new object is
  put at the end. Dict keys are strings, as the keys of a config are.
\<close>

datatype obj = OList "pyval list" | ODict "(string \<times> pyval) list"

type_synonym heap = "obj list"

fun refs_of :: "pyval \<Rightarrow> addr list" where
  "refs_of (VRef a) = [a]"
| "refs_of _ = []"

fun children :: "obj \<Rightarrow> pyval list" where
  "children (OList vs) = vs"
| "children (ODict kvs) = map snd kvs"

definition succs :: "heap \<Rightarrow> addr \<Rightarrow> addr list" where
  "succs h a = (if a < length h then concat (map refs_of (children (h ! a))) else [])"


text \<open>
  \<open>copy.deepcopy\<close> is library code, modelled by what it does: it walks the objects below
  its argument, each one once (its memo), and builds a new object for each, in which
  every reference to a walked object is replaced by the reference to that object's copy.
  Numbers, strings, \<open>None\<close>, classes and functions are not copied but shared.
  \<open>dfs\<close> is the walk: \<open>visited\<close> is the memo in the order of discovery.
\<close>

function dfs :: "heap \<Rightarrow> addr list \<Rightarrow> addr list \<Rightarrow> addr list" where
  "dfs h visited [] = visited"
| "dfs h visited (a # todo) =
     (if a \<in> set visited \<or> \<not> a < length h then dfs h visited todo
      else dfs h (visited @ [a]) (succs h a @ todo))"
  by pat_completeness auto
termination
proof (relation "measures [\<lambda>(h, visited, todo). length h - card (set visited \<inter> {..<length h}),
                            \<lambda>(h, visited, todo). length todo]", goal_cases)
  case 1
  show ?case by simp
next
  case (2 h visited a todo)
  show ?case by simp
next
  case (3 h visited a todo)
  let ?S = "set visited \<inter> {..<length h}"
  from 3 have a: "a \<notin> ?S" "a < length h" by auto
  have "insert a ?S \<subseteq> {..<length h}" using a by auto
  then have "card (insert a ?S) \<le> card {..<length h}"
    by (intro card_mono) auto
  then have le: "Suc (card ?S) \<le> length h" using a by simp
  have "set (visited @ [a]) \<inter> {..<length h} = insert a ?S" using a by auto
  then have "card (set (visited @ [a]) \<inter> {..<length h}) = Suc (card ?S)"
    using a by simp
  then have "length h - card (set (visited @ [a]) \<inter> {..<length h}) < length h - card ?S"
    using le by linarith
  then show ?case by (simp del: set_append)
qed

fun index_of :: "addr list \<Rightarrow> addr \<Rightarrow> nat option" where
  "index_of [] a = None"
| "index_of (x # xs) a = (if x = a then Some 0 else map_option Suc (index_of xs a))"

definition rename :: "nat \<Rightarrow> addr list \<Rightarrow> pyval \<Rightarrow> pyval" where
  "rename n memo v =
     (case v of
        VRef a \<Rightarrow> (case index_of memo a of Some i \<Rightarrow> VRef (n + i) | None \<Rightarrow> VRef a)
      | _ \<Rightarrow> v)"

fun copy_obj :: "nat \<Rightarrow> addr list \<Rightarrow> obj \<Rightarrow> obj" where
  "copy_obj n memo (OList vs) = OList (map (rename n memo) vs)"
| "copy_obj n memo (ODict kvs) = ODict (map (\<lambda>(k, v). (k, rename n memo v)) kvs)"

definition deepcopy :: "heap \<Rightarrow> pyval \<Rightarrow> pyval \<times> heap" where
  "deepcopy h v =
     (let memo = dfs h [] (refs_of v)
      in (rename (length h) memo v, h @ map (\<lambda>a. copy_obj (length h) memo (h ! a)) memo))"

text \<open>The dict operations of the builder, on the store.\<close>

definition dict_items :: "heap \<Rightarrow> pyval \<Rightarrow> (string \<times> pyval) list option" where
  "dict_items h v =
     (case v of
        VRef a \<Rightarrow>
          if a < length h then (case h ! a of ODict kvs \<Rightarrow> Some kvs | OList vs \<Rightarrow> None)
          else None
      | _ \<Rightarrow> None)"

text \<open>\<open>d.pop(k)\<close>: \<open>None\<close> where Python raises \<open>KeyError\<close>.\<close>

definition dict_pop :: "heap \<Rightarrow> pyval \<Rightarrow> string \<Rightarrow> (pyval \<times> heap) option" where
  "dict_pop h d k =
     (case d of
        VRef a \<Rightarrow>
          (case dict_items h d of
             Some kvs \<Rightarrow>
               (case map_of kvs k of
                  Some v \<Rightarrow> Some (v, h[a := ODict (AList.delete k kvs)])
                | None \<Rightarrow> None)
           | None \<Rightarrow> None)
      | _ \<Rightarrow> None)"

text \<open>\<open>d.update(kwargs)\<close>: a key of \<open>d\<close> keeps its place, a new key goes to the end.\<close>

definition dict_update :: "heap \<Rightarrow> pyval \<Rightarrow> (string \<times> pyval) list \<Rightarrow> heap" where
  "dict_update h d kwargs =
     (case d of
        VRef a \<Rightarrow>
          (case dict_items h d of
             Some kvs \<Rightarrow> h[a := ODict (fold (\<lambda>(k, v). AList.update k v) kwargs kvs)]
           | None \<Rightarrow> h)
      | _ \<Rightarrow> h)"

section \<open>The default builder\<close>

text \<open>
  The registry argument is a Registry or some other object. Calling the resolved class or
  function runs code from outside the module: \<open>call f kw h\<close> is what the call of
  \<open>f(**kw)\<close> does in store \<open>h\<close>, the value returned or the exception raised and the
  store afterwards.
\<close>

datatype registry_arg = IsRegistry Registry | NotRegistry pyval

datatype completion = Returned pyval | Raised pyexc

type_synonym semantics = "pyval \<Rightarrow> (string \<times> pyval) list \<Rightarrow> heap \<Rightarrow> completion \<times> heap"

text \<open>Lines 57 to 60.\<close>

definition resolve :: "Registry \<Rightarrow> pyval \<Rightarrow> pyexc + pyval" where
  "resolve registry req_type =
     (case req_type of
        VStr s \<Rightarrow>
          (case get registry s of
             VNone \<Rightarrow>
               Inl (PyExc KeyError
                      [Fmt req_type, Lit '' not found in '', Fmt (VStr (name registry)),
                       Lit '' registry''] None)
           | req_type_entry \<Rightarrow> Inr req_type_entry)
      | _ \<Rightarrow> Inr req_type)"

text \<open>
  Lines 65 to 76. The exception raised inside an \<open>except\<close> block has the caught
  exception as its \<open>__context__\<close>; \<open>except Exception\<close> lets an exception outside the
  \<open>Exception\<close> hierarchy through.
\<close>

definition wrap :: "string \<Rightarrow> pyval \<Rightarrow> completion \<times> heap \<Rightarrow> (pyexc + pyval) \<times> heap" where
  "wrap what req_type_entry r =
     (case r of
        (Returned v, h') \<Rightarrow> (Inr v, h')
      | (Raised e, h') \<Rightarrow>
          if is_Exception (exc_class e)
          then (Inl (PyExc Exception
                       [Lit what, Fmt req_type_entry, Lit '', with '', FmtExc e] (Some e)), h')
          else (Inl e, h'))"

definition invoke :: "semantics \<Rightarrow> pyval \<Rightarrow> (string \<times> pyval) list \<Rightarrow> heap \<Rightarrow> (pyexc + pyval) \<times> heap" where
  "invoke call req_type_entry kw h =
     (if isclass req_type_entry
      then wrap ''Failed to init class '' req_type_entry (call req_type_entry kw h)
      else if isfunction req_type_entry
      then wrap ''Failed to invoke function '' req_type_entry (call req_type_entry kw h)
      else (Inl (PyExc TypeError
                   [Lit ''type must be str or class, got '', FmtType req_type_entry] None), h))"

text \<open>
  Lines 46 to 63 of \<open>build_from_config(cfg, registry, **kwargs)\<close> in store \<open>h\<close>: an
  exception and the store at that point, or the resolved callee, the keyword arguments
  it is about to receive and the store. \<open>**cfg\<close> hands the entries of the copy to the
  callee, not the copy itself. \<open>dict.pop\<close> raises \<open>KeyError\<close> for a missing key.
\<close>

definition prepare ::
  "heap \<Rightarrow> pyval \<Rightarrow> registry_arg \<Rightarrow> (string \<times> pyval) list
     \<Rightarrow> (pyexc \<times> heap) + (pyval \<times> (string \<times> pyval) list \<times> heap)" where
  "prepare h cfg registry kwargs =
     (case dict_items h cfg of
        None \<Rightarrow>
          Inl (PyExc TypeError [Lit ''config must be type dict, got '', FmtType cfg] None, h)
      | Some items \<Rightarrow>
          if ''type'' \<notin> fst ` set items
          then Inl (PyExc KeyError [Lit ''config must contain key type, got '', Fmt cfg] None, h)
          else
            (case registry of
               NotRegistry x \<Rightarrow>
                 Inl (PyExc TypeError
                        [Lit ''registry must be type Registry, got '', FmtType x] None, h)
             | IsRegistry reg \<Rightarrow>
                 (case deepcopy h cfg of
                    (cfg1, h1) \<Rightarrow>
                      (case dict_pop h1 cfg1 ''type'' of
                         None \<Rightarrow> Inl (PyExc KeyError [Fmt (VStr ''type'')] None, h1)
                       | Some (req_type, h2) \<Rightarrow>
                           (case resolve reg req_type of
                              Inl e \<Rightarrow> Inl (e, h2)
                            | Inr req_type_entry \<Rightarrow>
                                (let h3 = dict_update h2 cfg1 kwargs
                                 in case dict_items h3 cfg1 of
                                      None \<Rightarrow> Inr (req_type_entry, [], h3)
                                    | Some kw \<Rightarrow> Inr (req_type_entry, kw, h3)))))))"

definition build_from_config ::
  "semantics \<Rightarrow> heap \<Rightarrow> pyval \<Rightarrow> registry_arg \<Rightarrow> (string \<times> pyval) list \<Rightarrow> (pyexc + pyval) \<times> heap" where
  "build_from_config call h cfg registry kwargs =
     (case prepare h cfg registry kwargs of
        Inl (e, h') \<Rightarrow> (Inl e, h')
      | Inr (req_type_entry, kw, h3) \<Rightarrow> invoke call req_type_entry kw h3)"

section \<open>Example objects\<close>

text \<open>
  \<open>object\<close>, whose \<open>__init__\<close> has the signature \<open>(self, /, *args, **kwargs)\<close>, and
  the class and the function of the docstring of \<open>Registry\<close>, with a constructor
  \<open>__init__(self, depth=50)\<close> for the class.
\<close>

definition object_class :: pyclass where
  "object_class =
     PyClass ''object'' []
       [Parameter ''self'' POSITIONAL_ONLY None None,
        Parameter ''args'' VAR_POSITIONAL None None,
        Parameter ''kwargs'' VAR_KEYWORD None None] [] True"

definition ResNet :: pyclass where
  "ResNet =
     PyClass ''ResNet'' []
       [Parameter ''self'' POSITIONAL_OR_KEYWORD None None,
        Parameter ''depth'' POSITIONAL_OR_KEYWORD (Some (DInt 50)) None] [object_class] True"

definition get_inception_v3 :: pyfunction where
  "get_inception_v3 =
     PyFunction ''get_inception_v3'' []
       [Parameter ''pretrained'' POSITIONAL_OR_KEYWORD (Some (DBool False)) None,
        Parameter ''progress'' POSITIONAL_OR_KEYWORD (Some (DBool True)) None]"

text \<open>\<open>lambda x: x * x\<close> and \<open>def cube(x): ...\<close>.\<close>

definition square :: pyfunction where
  "square = PyFunction ''<lambda>'' [] [Parameter ''x'' POSITIONAL_OR_KEYWORD None None]"

definition cube :: pyfunction where
  "cube = PyFunction ''cube'' [] [Parameter ''x'' POSITIONAL_OR_KEYWORD None None]"

text \<open>
  \<open>MODELS = Registry('MODELS')\<close> and \<open>SHAPES = Registry('SHAPES', allow_types=("class",))\<close>
  as they are created, and a registry that holds a class and a function under one key.
\<close>

definition MODELS :: Registry where
  "MODELS = Registry_init ''MODELS'' [''class'', ''function'']"

definition SHAPES :: Registry where
  "SHAPES = Registry_init ''SHAPES'' [''class'']"

definition ZOO :: Registry where
  "ZOO =
     \<lparr>name = ''ZOO'', allow_types = [''class'', ''function''],
      class_map = [(''net'', ResNet)],
      func_map = [(''net'', get_inception_v3), (''InceptionV3'', get_inception_v3)]\<rparr>"



text \<open>
  \<open>class Backbone: def __init__(self, depth=50, *args, **kwargs)\<close> and
  \<open>def make_backbone(depth=50, *args, **kwargs)\<close>; \<open>class Deep(Backbone)\<close> with
  \<open>__init__(self, depth=101, width=64)\<close>; \<open>class Plain(Backbone)\<close> with
  \<open>__init__(self, width=64)\<close>.
\<close>

definition Backbone :: pyclass where
  "Backbone =
     PyClass ''Backbone'' []
       [Parameter ''self'' POSITIONAL_OR_KEYWORD None None,
        Parameter ''depth'' POSITIONAL_OR_KEYWORD (Some (DInt 50)) None,
        Parameter ''args'' VAR_POSITIONAL None None,
        Parameter ''kwargs'' VAR_KEYWORD None None] [object_class] True"

definition make_backbone :: pyfunction where
  "make_backbone =
     PyFunction ''make_backbone'' []
       [Parameter ''depth'' POSITIONAL_OR_KEYWORD (Some (DInt 50)) None,
        Parameter ''args'' VAR_POSITIONAL None None,
        Parameter ''kwargs'' VAR_KEYWORD None None]"

definition Deep :: pyclass where
  "Deep =
     PyClass ''Deep'' []
       [Parameter ''self'' POSITIONAL_OR_KEYWORD None None,
        Parameter ''depth'' POSITIONAL_OR_KEYWORD (Some (DInt 101)) None,
        Parameter ''width'' POSITIONAL_OR_KEYWORD (Some (DInt 64)) None]
       [Backbone, object_class] True"

definition Plain :: pyclass where
  "Plain =
     PyClass ''Plain'' []
       [Parameter ''self'' POSITIONAL_OR_KEYWORD None None,
        Parameter ''width'' POSITIONAL_OR_KEYWORD (Some (DInt 64)) None]
       [Backbone, object_class] True"

text \<open>
  A store with the config \<open>{"type": "InceptionV3", "layers": [1]}\<close> at address 0 and its
  list at address 1, and a store with the config \<open>{"depth": 50}\<close>.
\<close>

definition config_store :: heap where
  "config_store =
     [ODict [(''type'', VStr ''InceptionV3''), (''layers'', VRef 1)], OList [VInt 1]]"

definition untyped_store :: heap where
  "untyped_store = [ODict [(''depth'', VInt 50)]]"

text \<open>A store with the config \<open>{"type": "net", "depth": 18}\<close> at address 0.\<close>

definition class_config_store :: heap where
  "class_config_store = [ODict [(''type'', VStr ''net''), (''depth'', VInt 18)]]"

text \<open>
  What calling \<open>def f(layers): layers.append(2); return layers\<close> does, and a callee that
  raises a given exception whatever it receives.
\<close>

definition append_layer :: semantics where
  "append_layer f kw h =
     (case map_of kw ''layers'' of
        Some (VRef a) \<Rightarrow>
          if a < length h
          then (case h ! a of
                  OList vs \<Rightarrow> (Returned (VRef a), h[a := OList (vs @ [VInt 2])])
                | ODict kvs \<Rightarrow>
                    (Raised (PyExc AttributeError [Lit ''dict object has no attribute append'']
                               None), h))
          else (Raised (PyExc AttributeError [Lit ''no such object''] None), h)
      | _ \<Rightarrow> (Raised (PyExc AttributeError [Lit ''object has no attribute append''] None), h))"

definition always_raises :: "pyexc \<Rightarrow> semantics" where
  "always_raises e f kw h = (Raised e, h)"

definition division_by_zero :: pyexc where
  "division_by_zero = PyExc (OtherException ''ZeroDivisionError'') [Lit ''division by zero''] None"

definition keyboard_interrupt :: pyexc where
  "keyboard_interrupt = PyExc (BaseExceptionOnly ''KeyboardInterrupt'') [] None"



section \<open>The registration operations, field by field\<close>

lemma raise_simps [simp]:
  "after (raise r t m) = r"
  "outcome (raise r t m) = Inl (PyExc t m None)"
  "warned (raise r t m) = []"
  by (simp_all add: raise_def)

lemma after_register_class:
  "after (register_class r nm cls) =
     (case cls of
        VClass c \<Rightarrow>
          if ''class'' \<in> set (allow_types r)
          then r\<lparr>class_map := AList.update (name_or nm (cls_name c)) c (class_map r)\<rparr>
          else r
      | _ \<Rightarrow> r)"
  by (simp add: register_class_def Let_def split: pyval.split)

lemma after_register_function:
  "after (register_function r nm func) =
     (case func of
        VFunction f \<Rightarrow>
          if ''function'' \<in> set (allow_types r)
          then r\<lparr>func_map := AList.update (name_or nm (fn_name f)) f (func_map r)\<rparr>
          else r
      | _ \<Rightarrow> r)"
  by (simp add: register_function_def Let_def split: pyval.split)

lemma after_register_by_hand:
  "after (register_by_hand r inst nm) =
     (if is_lambda inst \<and> nm = None then r
      else case key_by_hand inst nm of
             None \<Rightarrow> r
           | Some key \<Rightarrow>
               (case inst of
                  VFunction f \<Rightarrow>
                    if ''function'' \<in> set (allow_types r)
                    then r\<lparr>func_map := AList.update key f (func_map r)\<rparr> else r
                | VClass c \<Rightarrow>
                    if ''class'' \<in> set (allow_types r)
                    then r\<lparr>class_map := AList.update key c (class_map r)\<rparr> else r
                | _ \<Rightarrow> r))"
  by (simp add: register_by_hand_def split: option.split pyval.split)

lemma outcome_register_class:
  "outcome (register_class r nm cls) =
     (case cls of
        VClass c \<Rightarrow>
          if ''class'' \<in> set (allow_types r) then Inr cls
          else Inl (PyExc TypeError
                 [Lit ''Register '', Fmt (VStr (name r)), Lit '' only allows type '',
                  FmtTuple (allow_types r), Lit '', got class''] None)
      | _ \<Rightarrow> Inl (PyExc TypeError [Lit ''Module must be type class, got '', FmtType cls] None))"
  by (simp add: register_class_def Let_def split: pyval.split)

lemma outcome_register_function:
  "outcome (register_function r nm func) =
     (case func of
        VFunction f \<Rightarrow>
          if ''function'' \<in> set (allow_types r) then Inr func
          else Inl (PyExc TypeError
                 [Lit ''Registry '', Fmt (VStr (name r)), Lit '' only allows type '',
                  FmtTuple (allow_types r), Lit '', got function''] None)
      | _ \<Rightarrow>
          Inl (PyExc TypeError [Lit ''Registry must be type function, got '', FmtType func] None))"
  by (simp add: register_function_def Let_def split: pyval.split)

lemma isl_outcome_register_by_hand:
  "isl (outcome (register_by_hand r inst nm)) =
     (\<not> ((\<exists>f. inst = VFunction f \<and> ''function'' \<in> set (allow_types r)
              \<and> \<not> (fn_name f = ''<lambda>'' \<and> nm = None))
         \<or> (\<exists>c. inst = VClass c \<and> ''class'' \<in> set (allow_types r))))"
  by (cases inst; cases nm)
     (simp_all add: register_by_hand_def is_lambda_def key_by_hand_def)

lemma warned_register_class:
  "''class'' \<in> set (allow_types r) \<Longrightarrow>
   warned (register_class r nm (VClass c)) =
     (case map_of (class_map r) (name_or nm (cls_name c)) of
        Some old \<Rightarrow>
          [[Lit ''Class '', Fmt (VStr (name_or nm (cls_name c))), Lit '' already registered by '',
            Fmt (VClass old), Lit '', will be replaced by '', Fmt (VClass c)]]
      | None \<Rightarrow> [])"
  by (simp add: register_class_def Let_def)

lemma warned_register_function:
  "''function'' \<in> set (allow_types r) \<Longrightarrow>
   warned (register_function r nm (VFunction f)) =
     (case map_of (func_map r) (name_or nm (fn_name f)) of
        Some old \<Rightarrow>
          [[Lit ''Function '', Fmt (VStr (name_or nm (fn_name f))),
            Lit '' already registered by '', Fmt (VFunction old),
            Lit '', will be replaced by '', Fmt (VFunction f)]]
      | None \<Rightarrow> [])"
  by (simp add: register_function_def Let_def)

lemma by_hand_function:
  "''function'' \<in> set (allow_types r) \<Longrightarrow> key_by_hand (VFunction f) nm = Some key \<Longrightarrow>
   \<not> (is_lambda (VFunction f) \<and> nm = None) \<Longrightarrow>
   register_by_hand r (VFunction f) nm =
     \<lparr>outcome = Inr (),
      warned =
        (case map_of (func_map r) key of
           Some old \<Rightarrow>
             [[Lit ''Function '', Fmt (VStr key), Lit '' already registered by '',
               Fmt (VFunction old), Lit '', will be replaced by '', Fmt (VFunction f)]]
         | None \<Rightarrow> []),
      after = r\<lparr>func_map := AList.update key f (func_map r)\<rparr>\<rparr>"
  by (cases nm) (auto simp add: register_by_hand_def)

lemma by_hand_class:
  "''class'' \<in> set (allow_types r) \<Longrightarrow> key_by_hand (VClass c) nm = Some key \<Longrightarrow>
   register_by_hand r (VClass c) nm =
     \<lparr>outcome = Inr (),
      warned =
        (case map_of (class_map r) key of
           Some old \<Rightarrow>
             [[Lit ''Class '', Fmt (VStr key), Lit '' already registered by '',
               Fmt (VClass old), Lit '', will be replaced by '', Fmt (VClass c)]]
         | None \<Rightarrow> []),
      after = r\<lparr>class_map := AList.update key c (class_map r)\<rparr>\<rparr>"
  by (simp add: register_by_hand_def is_lambda_def)

lemma get_update_class:
  "get (r\<lparr>class_map := AList.update k c (class_map r)\<rparr>) k2 =
     (if k2 = k
      then (if cls_truth c then VClass c
            else (case map_of (func_map r) k of Some f \<Rightarrow> VFunction f | None \<Rightarrow> VNone))
      else get r k2)"
  by (simp add: get_def Let_def update_conv' split: option.split)

lemma get_update_func:
  "get (r\<lparr>func_map := AList.update k f (func_map r)\<rparr>) k2 =
     (if k2 = k \<and> \<not> isclass (get r k) then VFunction f else get r k2)"
  by (simp add: get_def Let_def update_conv' split: option.split)

lemma get_update_func_free:
  "map_of (class_map r) k = None \<Longrightarrow>
   get (r\<lparr>func_map := AList.update k f (func_map r)\<rparr>) k = VFunction f"
  by (simp add: get_def Let_def update_conv')




section \<open>Lookup\<close>




section \<open>Registration\<close>

text \<open>
  Claim C8, amended. On a registry that admits the kind, registering a second entity under
  a key of the same map does not raise, emits one warning and replaces the entry of that
  map; this holds for \<open>register_class\<close>, for \<open>register_function\<close>, and for
  \<open>register_by_hand\<close> of a class or of a function other than an unnamed lambda given no
  name, which raises the value error whatever the maps hold. After the registration of a
  class \<open>get\<close> returns the second class when its truth value is true. After the
  registration of a function \<open>get\<close> returns the second function when \<open>get\<close> gave no
  class for that key before, that is, when no class of true truth value holds the key.
\<close>

theorem reregistration_replaces:
  "(''class'' \<in> set (allow_types r) \<and> map_of (class_map r) (name_or nm (cls_name c)) = Some old
      \<longrightarrow> outcome (register_class r nm (VClass c)) = Inr (VClass c)
        \<and> length (warned (register_class r nm (VClass c))) = 1
        \<and> map_of (class_map (after (register_class r nm (VClass c)))) (name_or nm (cls_name c))
            = Some c
        \<and> (cls_truth c \<longrightarrow>
              get (after (register_class r nm (VClass c))) (name_or nm (cls_name c)) = VClass c))
   \<and> (''function'' \<in> set (allow_types r) \<and> map_of (func_map r) (name_or nm (fn_name f)) = Some old'
      \<longrightarrow> outcome (register_function r nm (VFunction f)) = Inr (VFunction f)
        \<and> length (warned (register_function r nm (VFunction f))) = 1
        \<and> map_of (func_map (after (register_function r nm (VFunction f)))) (name_or nm (fn_name f))
            = Some f
        \<and> (\<not> isclass (get r (name_or nm (fn_name f)))
             \<longrightarrow> get (after (register_function r nm (VFunction f))) (name_or nm (fn_name f))
                   = VFunction f))
   \<and> (''class'' \<in> set (allow_types r) \<and> key_by_hand (VClass c) nm = Some key
        \<and> map_of (class_map r) key = Some old
      \<longrightarrow> outcome (register_by_hand r (VClass c) nm) = Inr ()
        \<and> length (warned (register_by_hand r (VClass c) nm)) = 1
        \<and> map_of (class_map (after (register_by_hand r (VClass c) nm))) key = Some c
        \<and> (cls_truth c \<longrightarrow> get (after (register_by_hand r (VClass c) nm)) key = VClass c))
   \<and> (''function'' \<in> set (allow_types r) \<and> key_by_hand (VFunction f) nm = Some key'
        \<and> \<not> (is_lambda (VFunction f) \<and> nm = None) \<and> map_of (func_map r) key' = Some old'
      \<longrightarrow> outcome (register_by_hand r (VFunction f) nm) = Inr ()
        \<and> length (warned (register_by_hand r (VFunction f) nm)) = 1
        \<and> map_of (func_map (after (register_by_hand r (VFunction f) nm))) key' = Some f
        \<and> (\<not> isclass (get r key')
             \<longrightarrow> get (after (register_by_hand r (VFunction f) nm)) key' = VFunction f))
   \<and> (is_lambda lam \<longrightarrow>
        outcome (register_by_hand r lam None)
          = Inl (PyExc ValueError [Lit ''Lambda function needs a explicit name, got None''] None))"
proof (intro conjI impI; (elim conjE)?)
  assume "''class'' \<in> set (allow_types r)"
    "map_of (class_map r) (name_or nm (cls_name c)) = Some old"
  then show "outcome (register_class r nm (VClass c)) = Inr (VClass c)"
    "length (warned (register_class r nm (VClass c))) = 1"
    "map_of (class_map (after (register_class r nm (VClass c)))) (name_or nm (cls_name c)) = Some c"
    by (simp_all add: outcome_register_class warned_register_class after_register_class
          update_conv')
next
  assume "''class'' \<in> set (allow_types r)" "cls_truth c"
  then show "get (after (register_class r nm (VClass c))) (name_or nm (cls_name c)) = VClass c"
    by (simp add: after_register_class get_update_class)
next
  assume "''function'' \<in> set (allow_types r)"
    "map_of (func_map r) (name_or nm (fn_name f)) = Some old'"
  then show "outcome (register_function r nm (VFunction f)) = Inr (VFunction f)"
    "length (warned (register_function r nm (VFunction f))) = 1"
    "map_of (func_map (after (register_function r nm (VFunction f)))) (name_or nm (fn_name f))
       = Some f"
    by (simp_all add: outcome_register_function warned_register_function after_register_function
          update_conv')
next
  assume "''function'' \<in> set (allow_types r)"
    "\<not> isclass (get r (name_or nm (fn_name f)))"
  then show "get (after (register_function r nm (VFunction f))) (name_or nm (fn_name f))
      = VFunction f"
    by (simp add: after_register_function get_update_func)
next
  assume "''class'' \<in> set (allow_types r)" "key_by_hand (VClass c) nm = Some key"
    "map_of (class_map r) key = Some old"
  then show "outcome (register_by_hand r (VClass c) nm) = Inr ()"
    "length (warned (register_by_hand r (VClass c) nm)) = 1"
    "map_of (class_map (after (register_by_hand r (VClass c) nm))) key = Some c"
    by (simp_all add: by_hand_class update_conv')
next
  assume "''class'' \<in> set (allow_types r)" "key_by_hand (VClass c) nm = Some key" "cls_truth c"
  then show "get (after (register_by_hand r (VClass c) nm)) key = VClass c"
    by (simp add: by_hand_class get_update_class)
next
  assume "''function'' \<in> set (allow_types r)" "key_by_hand (VFunction f) nm = Some key'"
    "\<not> (is_lambda (VFunction f) \<and> nm = None)" "map_of (func_map r) key' = Some old'"
  then show "outcome (register_by_hand r (VFunction f) nm) = Inr ()"
    "length (warned (register_by_hand r (VFunction f) nm)) = 1"
    "map_of (func_map (after (register_by_hand r (VFunction f) nm))) key' = Some f"
    by (simp_all add: by_hand_function update_conv')
next
  assume "''function'' \<in> set (allow_types r)" "key_by_hand (VFunction f) nm = Some key'"
    "\<not> (is_lambda (VFunction f) \<and> nm = None)" "\<not> isclass (get r key')"
  then show "get (after (register_by_hand r (VFunction f) nm)) key' = VFunction f"
    by (simp add: by_hand_function get_update_func)
next
  assume "is_lambda lam"
  then show "outcome (register_by_hand r lam None)
      = Inl (PyExc ValueError [Lit ''Lambda function needs a explicit name, got None''] None)"
    by (simp add: register_by_hand_def)
qed

theorem reregistration_replaces_witness:
  "map_of (class_map ZOO) ''net'' = Some ResNet \<and> cls_truth object_class
   \<and> outcome (register_class ZOO (Some ''net'') (VClass object_class)) = Inr (VClass object_class)
   \<and> length (warned (register_class ZOO (Some ''net'') (VClass object_class))) = 1
   \<and> get (after (register_class ZOO (Some ''net'') (VClass object_class))) ''net''
        = VClass object_class
   \<and> map_of (func_map ZOO) ''InceptionV3'' = Some get_inception_v3
   \<and> \<not> isclass (get ZOO ''InceptionV3'')
   \<and> outcome (register_function ZOO (Some ''InceptionV3'') (VFunction cube)) = Inr (VFunction cube)
   \<and> length (warned (register_function ZOO (Some ''InceptionV3'') (VFunction cube))) = 1
   \<and> get (after (register_function ZOO (Some ''InceptionV3'') (VFunction cube))) ''InceptionV3''
        = VFunction cube
   \<and> outcome (register_by_hand ZOO (VClass object_class) (Some ''net'')) = Inr ()
   \<and> get (after (register_by_hand ZOO (VClass object_class) (Some ''net''))) ''net''
        = VClass object_class
   \<and> outcome (register_by_hand ZOO (VFunction square) (Some ''InceptionV3'')) = Inr ()
   \<and> get (after (register_by_hand ZOO (VFunction square) (Some ''InceptionV3''))) ''InceptionV3''
        = VFunction square
   \<and> is_lambda (VFunction square)
   \<and> isl (outcome (register_by_hand ZOO (VFunction square) None))"
proof -
  have ev: ?thesis by code_simp
  show ?thesis
  using reregistration_replaces [where r = ZOO and nm = "Some ''net''" and c = object_class
          and old = ResNet and key = "''net''" and lam = "VFunction square"]
        reregistration_replaces [where r = ZOO and nm = "Some ''InceptionV3''" and f = cube
          and old' = get_inception_v3]
        reregistration_replaces [where r = ZOO and nm = "Some ''InceptionV3''" and f = square
          and old' = get_inception_v3 and key' = "''InceptionV3''"]
    by - (rule ev)
qed

text \<open>
  The claim as it is written fails where a class holds the key too: in \<open>ZOO\<close> the key
  \<open>net\<close> is in both maps, registering \<open>cube\<close> under it succeeds, and \<open>get\<close> still
  returns the class.
\<close>

theorem reregistered_function_shadowed_counterexample:
  "map_of (func_map ZOO) ''net'' = Some get_inception_v3
   \<and> outcome (register_function ZOO (Some ''net'') (VFunction cube)) = Inr (VFunction cube)
   \<and> get (after (register_function ZOO (Some ''net'') (VFunction cube))) ''net'' \<noteq> VFunction cube"
  by (simp add: ZOO_def ResNet_def outcome_register_function after_register_function get_def)

text \<open>
  Claim C9, amended. \<open>register_by_hand\<close> of a function named \<open><lambda>\<close> with no name
  raises the value error and writes nothing. With a name that is not empty, on a registry
  whose \<open>allow_types\<close> has \<open>function\<close>, it succeeds and the function map holds the
  function under that name; \<open>get\<close> returns it when no class is registered under the name.
\<close>

theorem lambda_needs_explicit_name:
  "(is_lambda inst \<longrightarrow>
      outcome (register_by_hand r inst None)
        = Inl (PyExc ValueError [Lit ''Lambda function needs a explicit name, got None''] None)
      \<and> after (register_by_hand r inst None) = r)
   \<and> (is_lambda (VFunction f) \<and> n \<noteq> [] \<and> ''function'' \<in> set (allow_types r') \<longrightarrow>
        outcome (register_by_hand r' (VFunction f) (Some n)) = Inr ()
        \<and> map_of (func_map (after (register_by_hand r' (VFunction f) (Some n)))) n = Some f
        \<and> (map_of (class_map r') n = None
             \<longrightarrow> get (after (register_by_hand r' (VFunction f) (Some n))) n = VFunction f))"
proof (intro conjI impI; (elim conjE)?)
  assume "is_lambda inst"
  then show "outcome (register_by_hand r inst None)
      = Inl (PyExc ValueError [Lit ''Lambda function needs a explicit name, got None''] None)"
    "after (register_by_hand r inst None) = r"
    by (simp_all add: register_by_hand_def)
next
  assume a: "n \<noteq> []" "''function'' \<in> set (allow_types r')"
  then have k: "key_by_hand (VFunction f) (Some n) = Some n"
    by (simp add: key_by_hand_def)
  from a k show "outcome (register_by_hand r' (VFunction f) (Some n)) = Inr ()"
    "map_of (func_map (after (register_by_hand r' (VFunction f) (Some n)))) n = Some f"
    by (simp_all add: by_hand_function update_conv')
  assume "map_of (class_map r') n = None"
  with a k show "get (after (register_by_hand r' (VFunction f) (Some n))) n = VFunction f"
    by (simp add: by_hand_function get_update_func_free)
qed

theorem lambda_needs_explicit_name_witness:
  "is_lambda (VFunction square)
   \<and> outcome (register_by_hand MODELS (VFunction square) None)
       = Inl (PyExc ValueError [Lit ''Lambda function needs a explicit name, got None''] None)
   \<and> outcome (register_by_hand MODELS (VFunction square) (Some ''square'')) = Inr ()
   \<and> get (after (register_by_hand MODELS (VFunction square) (Some ''square''))) ''square''
       = VFunction square"
  using lambda_needs_explicit_name [where inst = "VFunction square" and r = MODELS
          and f = square and n = "''square''" and r' = MODELS]
  by (simp add: MODELS_def Registry_init_def is_lambda_def square_def)

text \<open>
  The claim as it is written fails on \<open>SHAPES\<close>, which admits classes only: the lambda
  with an explicit name is refused with a type error and cannot be retrieved.
\<close>

theorem named_lambda_rejected_counterexample:
  "is_lambda (VFunction square)
   \<and> outcome (register_by_hand SHAPES (VFunction square) (Some ''square''))
       = Inl (PyExc TypeError
                [Lit ''Registry '', Fmt (VStr ''square''), Lit '' only allows type '',
                 FmtTuple [''class''], Lit '', got function''] None)
   \<and> get (after (register_by_hand SHAPES (VFunction square) (Some ''square''))) ''square'' = VNone"
  by (simp add: SHAPES_def Registry_init_def is_lambda_def square_def register_by_hand_def
        key_by_hand_def get_def)

text \<open>
  Claim C10. A registration that raises leaves the registry as it was, both maps included:
  this holds for \<open>register_class\<close>, \<open>register_function\<close> and \<open>register_by_hand\<close> and
  for every argument. The failures the claim lists do raise: an entity of the wrong kind
  for the operation, a kind that \<open>allow_types\<close> lacks, and a lambda without a name.
\<close>

theorem failed_registration_is_atomic:
  "(isl (outcome (register_class r nm x)) \<longrightarrow> after (register_class r nm x) = r)
   \<and> (isl (outcome (register_function r nm x)) \<longrightarrow> after (register_function r nm x) = r)
   \<and> (isl (outcome (register_by_hand r x nm)) \<longrightarrow> after (register_by_hand r x nm) = r)
   \<and> (\<not> isclass x \<or> ''class'' \<notin> set (allow_types r) \<longrightarrow> isl (outcome (register_class r nm x)))
   \<and> (\<not> isfunction x \<or> ''function'' \<notin> set (allow_types r)
        \<longrightarrow> isl (outcome (register_function r nm x)))
   \<and> ((is_lambda x \<and> nm = None) \<or> (\<not> isclass x \<and> \<not> isfunction x)
        \<or> (isclass x \<and> ''class'' \<notin> set (allow_types r))
        \<or> (isfunction x \<and> ''function'' \<notin> set (allow_types r))
        \<longrightarrow> isl (outcome (register_by_hand r x nm)))"
proof (intro conjI impI)
  show "after (register_class r nm x) = r" if "isl (outcome (register_class r nm x))"
    using that
    by (cases x) (simp_all add: outcome_register_class after_register_class split: if_splits)
  show "after (register_function r nm x) = r" if "isl (outcome (register_function r nm x))"
    using that
    by (cases x) (simp_all add: outcome_register_function after_register_function split: if_splits)
  show "after (register_by_hand r x nm) = r" if "isl (outcome (register_by_hand r x nm))"
    using that
    by (cases x; cases nm)
       (auto simp add: isl_outcome_register_by_hand after_register_by_hand is_lambda_def
          key_by_hand_def split: if_splits)
  show "isl (outcome (register_class r nm x))"
    if "\<not> isclass x \<or> ''class'' \<notin> set (allow_types r)"
    using that by (cases x) (simp_all add: outcome_register_class)
  show "isl (outcome (register_function r nm x))"
    if "\<not> isfunction x \<or> ''function'' \<notin> set (allow_types r)"
    using that by (cases x) (simp_all add: outcome_register_function)
  show "isl (outcome (register_by_hand r x nm))"
    if "(is_lambda x \<and> nm = None) \<or> (\<not> isclass x \<and> \<not> isfunction x)
        \<or> (isclass x \<and> ''class'' \<notin> set (allow_types r))
        \<or> (isfunction x \<and> ''function'' \<notin> set (allow_types r))"
    using that by (cases x) (auto simp add: isl_outcome_register_by_hand is_lambda_def)
qed

theorem failed_registration_is_atomic_witness:
  "isl (outcome (register_function SHAPES None (VFunction cube)))
   \<and> after (register_function SHAPES None (VFunction cube)) = SHAPES
   \<and> isl (outcome (register_class SHAPES None (VFunction cube)))
   \<and> after (register_class SHAPES None (VFunction cube)) = SHAPES
   \<and> isl (outcome (register_by_hand ZOO (VFunction square) None))
   \<and> after (register_by_hand ZOO (VFunction square) None) = ZOO
   \<and> isl (outcome (register_by_hand ZOO (VInt 5) (Some ''five'')))
   \<and> after (register_by_hand ZOO (VInt 5) (Some ''five'')) = ZOO"
  using failed_registration_is_atomic [where r = SHAPES and nm = None and x = "VFunction cube"]
        failed_registration_is_atomic [where r = ZOO and nm = None and x = "VFunction square"]
        failed_registration_is_atomic [where r = ZOO and nm = "Some ''five''" and x = "VInt 5"]
  by (simp add: SHAPES_def Registry_init_def is_lambda_def square_def)

section \<open>Parameter templates\<close>

text \<open>
  Claim C6, amended. For a key of neither map \<open>fetch_parameters\<close> raises a value error
  whose message is \<open>Unexpected type\<close> followed by the key; the message has no other
  field. For a key of the class map it returns the template of that class, and for a key
  of the function map alone the template of that function.
\<close>

theorem fetch_parameters_by_key:
  "(map_of (class_map r) k1 = None \<and> map_of (func_map r) k1 = None \<longrightarrow>
      fetch_parameters r k1 = Inl (PyExc ValueError [Lit ''Unexpected type '', Fmt (VStr k1)] None))
   \<and> (map_of (class_map r) k2 = Some c \<longrightarrow> fetch_parameters r k2 = Inr (get_class_arguments c))
   \<and> (map_of (class_map r) k3 = None \<and> map_of (func_map r) k3 = Some f \<longrightarrow>
        fetch_parameters r k3 = Inr (get_function_arguments f))"
  by (simp add: fetch_parameters_def)

theorem fetch_parameters_by_key_witness:
  "fetch_parameters ZOO ''VGG''
     = Inl (PyExc ValueError [Lit ''Unexpected type '', Fmt (VStr ''VGG'')] None)
   \<and> fetch_parameters ZOO ''net'' = Inr (get_class_arguments ResNet)
   \<and> fetch_parameters ZOO ''InceptionV3'' = Inr (get_function_arguments get_inception_v3)"
  using fetch_parameters_by_key [where r = ZOO and ?k1.0 = "''VGG''" and ?k2.0 = "''net''"
          and c = ResNet and ?k3.0 = "''InceptionV3''" and f = get_inception_v3]
  by (simp add: ZOO_def)

text \<open>
  The claim as it is written fails: the error does not identify the registry. Two
  registries of different names raise the same error for the same missing key.
\<close>

theorem fetch_parameters_registry_unnamed_counterexample:
  "fetch_parameters MODELS ''VGG''
     = Inl (PyExc ValueError [Lit ''Unexpected type '', Fmt (VStr ''VGG'')] None)
   \<and> fetch_parameters SHAPES ''VGG'' = fetch_parameters MODELS ''VGG''
   \<and> name SHAPES \<noteq> name MODELS"
  by (simp add: fetch_parameters_def MODELS_def SHAPES_def Registry_init_def)

section \<open>Signature introspection\<close>


lemma map_of_snoc:
  "map_of (xs @ [(k, v)]) key =
     (case map_of xs key of Some x \<Rightarrow> Some x | None \<Rightarrow> if k = key then Some v else None)"
  by (simp add: map_of_append map_add_def split: option.split)

lemma in_keys_iff: "k \<in> fst ` set xs \<longleftrightarrow> map_of xs k \<noteq> None"
  by (simp add: map_of_eq_None_iff)

lemma fold_class_step:
  "map_of (fold (\<lambda>p args.
                 if par_kind p \<noteq> POSITIONAL_OR_KEYWORD then args
                 else if par_name p \<in> fst ` set args then args
                 else args @ [(par_name p, E p)]) ps args) key =
     (case map_of args key of
        Some v \<Rightarrow> Some v
      | None \<Rightarrow>
          map_option E (find (\<lambda>p. par_name p = key \<and> par_kind p = POSITIONAL_OR_KEYWORD) ps))"
proof (induction ps arbitrary: args)
  case Nil
  show ?case by (simp split: option.split)
next
  case (Cons p ps)
  show ?case
    by (auto simp add: Cons.IH map_of_snoc in_keys_iff simp del: map_of_append
          split: option.split)
qed

lemma map_of_class_level:
  "map_of (class_level c args) key =
     (case map_of args key of Some v \<Rightarrow> Some v | None \<Rightarrow> level_entry c key)"
  unfolding class_level_def Let_def level_entry_def declared_def
  by (rule fold_class_step)

lemma fold_class_level:
  "map_of (fold class_level cs args) key =
     (case map_of args key of
        Some v \<Rightarrow> Some v
      | None \<Rightarrow>
          (case find (\<lambda>c. declared c key \<noteq> None) cs of
             None \<Rightarrow> None
           | Some c \<Rightarrow> level_entry c key))"
proof (induction cs arbitrary: args)
  case Nil
  show ?case by (simp split: option.split)
next
  case (Cons c cs)
  show ?case
    by (auto simp add: Cons.IH map_of_class_level level_entry_def split: option.split)
qed

lemma map_of_get_class_arguments:
  "map_of (get_class_arguments cls) key =
     (case find (\<lambda>c. declared c key \<noteq> None) (mro cls) of
        None \<Rightarrow> None
      | Some c \<Rightarrow> level_entry c key)"
  by (simp add: get_class_arguments_def fold_class_level)

lemma vc_value_entry_for:
  "par_default q = Some d \<Longrightarrow> vc_value (entry_for owner docs q) = d"
  by (simp add: entry_for_def synthesize_def)

lemma mro_eq: "mro cls = cls # cls_bases cls"
  by (cases cls) simp

lemma fold_update_other:
  "key \<notin> par_name ` set ps \<Longrightarrow>
   map_of (fold (\<lambda>p args. case G p of None \<Rightarrow> args
                           | Some v \<Rightarrow> AList.update (par_name p) v args) ps args) key
     = map_of args key"
  by (induction ps arbitrary: args) (auto simp add: update_conv' split: option.split)

lemma fold_update_at:
  "distinct (map par_name ps) \<Longrightarrow> p \<in> set ps \<Longrightarrow> G p = Some v \<Longrightarrow>
   map_of (fold (\<lambda>p args. case G p of None \<Rightarrow> args
                           | Some v \<Rightarrow> AList.update (par_name p) v args) ps args) (par_name p)
     = Some v"
proof (induction ps arbitrary: args)
  case Nil
  then show ?case by simp
next
  case (Cons q ps)
  show ?case
  proof (cases "p = q")
    case True
    with Cons.prems have "par_name p \<notin> par_name ` set ps" by auto
    then show ?thesis
      using True Cons.prems(3) by (simp add: fold_update_other update_conv')
  next
    case False
    with Cons.prems have "p \<in> set ps" "distinct (map par_name ps)" by auto
    then show ?thesis
      using Cons.IH Cons.prems(3) by simp
  qed
qed

lemma get_function_arguments_fold:
  "get_function_arguments func =
     fold (\<lambda>p args. case function_entry func p of None \<Rightarrow> args
                     | Some v \<Rightarrow> AList.update (par_name p) v args) (fn_params func) []"
proof -
  have "(\<lambda>p args.
                 if par_kind p = VAR_KEYWORD
                 then AList.update (par_name p) (ValueComment (DDict []) '''') args
                 else if par_kind p = VAR_POSITIONAL
                 then AList.update (par_name p) (ValueComment (DList []) '''') args
                 else if par_kind p \<noteq> POSITIONAL_OR_KEYWORD then args
                 else AList.update (par_name p)
                        (entry_for (fn_name func) (get_doc_params (fn_doc func)) p) args)
        = (\<lambda>p args. case function_entry func p of None \<Rightarrow> args
                     | Some v \<Rightarrow> AList.update (par_name p) v args)"
    by (intro ext) (simp add: function_entry_def)
  then show ?thesis
    by (simp add: get_function_arguments_def Let_def)
qed

lemma map_of_get_function_arguments:
  "distinct (map par_name (fn_params func)) \<Longrightarrow> p \<in> set (fn_params func) \<Longrightarrow>
   function_entry func p = Some v \<Longrightarrow>
   map_of (get_function_arguments func) (par_name p) = Some v"
  by (simp add: get_function_arguments_fold fold_update_at)

text \<open>
  Claim C4. \<open>get_class_arguments\<close> walks \<open>cls.__mro__\<close> from the class itself to the
  last base and a name that already has an entry is never assigned again: the entry of a
  name is the one given by the first class of the resolution order whose constructor has
  an ordinary (positional-or-keyword) parameter of that name. For a class \<open>B\<close> whose next
  class in the order is \<open>A\<close>: when the constructor of \<open>B\<close> has no such parameter \<open>p\<close>
  and that of \<open>A\<close> has it with a default, the template holds \<open>p\<close> with the default of
  \<open>A\<close>; when the constructor of \<open>B\<close> has \<open>p\<close> with a default, the template holds the
  default of \<open>B\<close>, whatever \<open>A\<close> declares.
\<close>

theorem most_derived_level_wins:
  "(find (\<lambda>c. declared c key \<noteq> None) (mro cls) = Some c \<longrightarrow>
      map_of (get_class_arguments cls) key = level_entry c key)
   \<and> (cls_bases B = A # rest \<and> declared B p = None \<and> declared A p = Some q
        \<and> par_default q = Some d \<longrightarrow>
        map_option vc_value (map_of (get_class_arguments B) p) = Some d)
   \<and> (cls_bases B' = A' # rest' \<and> declared B' p' = Some q' \<and> par_default q' = Some d' \<longrightarrow>
        map_option vc_value (map_of (get_class_arguments B') p') = Some d')"
  by (simp add: map_of_get_class_arguments mro_eq level_entry_def vc_value_entry_for)

theorem most_derived_level_wins_witness:
  "find (\<lambda>c. declared c ''depth'' \<noteq> None) (mro Plain) = Some Backbone
   \<and> map_of (get_class_arguments Plain) ''depth'' = Some (ValueComment (DInt 50) '''')
   \<and> map_of (get_class_arguments Deep) ''depth'' = Some (ValueComment (DInt 101) '''')
   \<and> map_of (get_class_arguments Deep) ''width'' = Some (ValueComment (DInt 64) '''')"
  using most_derived_level_wins [where cls = Plain and key = "''depth''" and c = Backbone
          and B = Plain and A = Backbone and rest = "[object_class]" and p = "''depth''"
          and q = "Parameter ''depth'' POSITIONAL_OR_KEYWORD (Some (DInt 50)) None"
          and d = "DInt 50" and B' = Deep and A' = Backbone and rest' = "[object_class]"
          and p' = "''depth''"
          and q' = "Parameter ''depth'' POSITIONAL_OR_KEYWORD (Some (DInt 101)) None"
          and d' = "DInt 101"]
  by (simp add: Plain_def Deep_def Backbone_def object_class_def declared_def
        get_class_arguments_def class_level_def entry_for_def synthesize_def append_doc_def
        get_doc_params_def level_entry_def)

text \<open>
  Claim C5, amended. In the template of the function variant a variadic-keyword parameter
  has an entry with an empty mapping and an empty text, and a variadic-positional parameter
  an entry with an empty sequence and an empty text. The class variant skips every
  parameter that is not positional-or-keyword, the variadic ones included: a name that no
  class of the resolution order declares as an ordinary parameter has no entry.
\<close>

theorem variadic_parameters_by_variant:
  "(distinct (map par_name (fn_params func)) \<and> p \<in> set (fn_params func)
      \<and> par_kind p = VAR_KEYWORD \<longrightarrow>
      map_of (get_function_arguments func) (par_name p) = Some (ValueComment (DDict []) ''''))
   \<and> (distinct (map par_name (fn_params func)) \<and> p' \<in> set (fn_params func)
        \<and> par_kind p' = VAR_POSITIONAL \<longrightarrow>
        map_of (get_function_arguments func) (par_name p') = Some (ValueComment (DList []) ''''))
   \<and> ((\<forall>c \<in> set (mro cls). declared c key = None) \<longrightarrow>
        map_of (get_class_arguments cls) key = None)"
proof (intro conjI impI; (elim conjE)?)
  assume "distinct (map par_name (fn_params func))" "p \<in> set (fn_params func)"
    "par_kind p = VAR_KEYWORD"
  then show "map_of (get_function_arguments func) (par_name p) = Some (ValueComment (DDict []) '''')"
    by (intro map_of_get_function_arguments) (simp_all add: function_entry_def)
next
  assume "distinct (map par_name (fn_params func))" "p' \<in> set (fn_params func)"
    "par_kind p' = VAR_POSITIONAL"
  then show "map_of (get_function_arguments func) (par_name p') = Some (ValueComment (DList []) '''')"
    by (intro map_of_get_function_arguments) (simp_all add: function_entry_def)
next
  assume "\<forall>c \<in> set (mro cls). declared c key = None"
  then have "find (\<lambda>c. declared c key \<noteq> None) (mro cls) = None"
    by (simp add: find_None_iff)
  then show "map_of (get_class_arguments cls) key = None"
    by (simp add: map_of_get_class_arguments)
qed

theorem variadic_parameters_by_variant_witness:
  "map_of (get_function_arguments make_backbone) ''kwargs'' = Some (ValueComment (DDict []) '''')
   \<and> map_of (get_function_arguments make_backbone) ''args'' = Some (ValueComment (DList []) '''')
   \<and> mro Backbone = [Backbone, object_class]
   \<and> declared Backbone ''kwargs'' = None \<and> declared object_class ''kwargs'' = None
   \<and> map_of (get_class_arguments Backbone) ''kwargs'' = None"
  using variadic_parameters_by_variant [where func = make_backbone
          and p = "Parameter ''kwargs'' VAR_KEYWORD None None"
          and p' = "Parameter ''args'' VAR_POSITIONAL None None"
          and cls = Backbone and key = "''kwargs''"]
  by (simp add: make_backbone_def Backbone_def object_class_def declared_def)

text \<open>
  The claim as it is written fails for the class variant: the constructor of \<open>Backbone\<close>
  takes \<open>*args\<close> and \<open>**kwargs\<close>, and its template has the entry of \<open>depth\<close> alone.
\<close>

theorem class_variant_skips_variadic_counterexample:
  "Parameter ''kwargs'' VAR_KEYWORD None None \<in> set (cls_init Backbone)
   \<and> Parameter ''args'' VAR_POSITIONAL None None \<in> set (cls_init Backbone)
   \<and> get_class_arguments Backbone = [(''depth'', ValueComment (DInt 50) '''')]"
  by (simp add: Backbone_def object_class_def get_class_arguments_def class_level_def
        entry_for_def synthesize_def append_doc_def get_doc_params_def)

section \<open>The default builder: the copy and the checks\<close>


lemma dfs_prefix: "\<exists>rest. dfs h visited todo = visited @ rest"
proof (induction h visited todo rule: dfs.induct)
  case (1 h visited)
  show ?case by simp
next
  case (2 h visited a todo)
  show ?case
  proof (cases "a \<in> set visited \<or> \<not> a < length h")
    case True
    with 2 show ?thesis by simp
  next
    case False
    with 2 obtain rest where "dfs h (visited @ [a]) (succs h a @ todo) = (visited @ [a]) @ rest"
      by blast
    with False show ?thesis by simp
  qed
qed





lemma dict_itemsD:
  assumes "dict_items h cfg = Some items"
  obtains a where "cfg = VRef a" "a < length h" "h ! a = ODict items"
  using assms by (auto simp add: dict_items_def split: pyval.splits if_splits obj.splits)

lemma dict_items_at: "a < length h \<Longrightarrow> h ! a = ODict kvs \<Longrightarrow> dict_items h (VRef a) = Some kvs"
  by (simp add: dict_items_def)

lemma rename_non_ref [simp]:
  "rename n memo VNone = VNone"
  "rename n memo (VBool b) = VBool b"
  "rename n memo (VInt i) = VInt i"
  "rename n memo (VStr s) = VStr s"
  "rename n memo (VClass c) = VClass c"
  "rename n memo (VFunction f) = VFunction f"
  by (simp_all add: rename_def)

lemma prepare_passing:
  fixes h :: heap and kwargs :: "(string \<times> pyval) list"
  assumes items: "dict_items h cfg = Some items" and ty: "map_of items ''type'' = Some t"
  defines "n \<equiv> length h" and "memo \<equiv> dfs h [] (refs_of cfg)"
  defines "items1 \<equiv> map (\<lambda>(k, v). (k, rename n memo v)) items"
  defines "h1 \<equiv> h @ map (\<lambda>a. copy_obj n memo (h ! a)) memo"
  defines "kw \<equiv> fold (\<lambda>(k, v). AList.update k v) kwargs (AList.delete ''type'' items1)"
  shows "prepare h cfg (IsRegistry reg) kwargs =
     (case resolve reg (rename n memo t) of
        Inl e \<Rightarrow> Inl (e, h1[n := ODict (AList.delete ''type'' items1)])
      | Inr req_type_entry \<Rightarrow> Inr (req_type_entry, kw, h1[n := ODict kw]))"
proof -
  from items obtain a where a: "cfg = VRef a" "a < length h" "h ! a = ODict items"
    by (rule dict_itemsD)
  have "memo = dfs h [a] (succs h a)"
    using a by (simp add: memo_def)
  then obtain rest where memo: "memo = a # rest"
    using dfs_prefix [of h "[a]" "succs h a"] by auto
  have copy: "deepcopy h cfg = (VRef n, h1)"
    unfolding deepcopy_def Let_def memo_def [symmetric] n_def [symmetric] h1_def
    using a memo by (simp add: rename_def)
  have "h1 ! n = ODict items1"
    using a memo by (simp add: h1_def n_def nth_append items1_def)
  moreover have len: "n < length h1"
    using memo by (simp add: h1_def n_def)
  ultimately have d1: "dict_items h1 (VRef n) = Some items1"
    by (simp add: dict_items_at)
  have "map_of items1 ''type'' = Some (rename n memo t)"
    using ty by (simp add: items1_def map_of_map)
  with d1 have pop: "dict_pop h1 (VRef n) ''type''
      = Some (rename n memo t, h1[n := ODict (AList.delete ''type'' items1)])"
    by (simp add: dict_pop_def)
  have d2: "dict_items (h1[n := ODict (AList.delete ''type'' items1)]) (VRef n)
      = Some (AList.delete ''type'' items1)"
    using len by (simp add: dict_items_at)
  then have upd: "dict_update (h1[n := ODict (AList.delete ''type'' items1)]) (VRef n) kwargs
      = h1[n := ODict kw]"
    by (simp add: dict_update_def kw_def)
  have d3: "dict_items (h1[n := ODict kw]) (VRef n) = Some kw"
    using len by (simp add: dict_items_at)
  have "''type'' \<in> fst ` set items"
    using ty by (metis map_of_eq_None_iff option.distinct(1))
  then show ?thesis
    unfolding prepare_def
    by (simp add: items copy pop upd d3 Let_def split: sum.split)
qed

lemma resolve_found:
  "\<forall>s. t = VStr s \<longrightarrow> get reg s \<noteq> VNone \<Longrightarrow> \<exists>entry. resolve reg (rename n memo t) = Inr entry"
  by (cases t) (auto simp add: resolve_def rename_def split: pyval.split option.split)

lemma not_Exception_class:
  "\<not> is_Exception c \<Longrightarrow> c \<noteq> KeyError \<and> c \<noteq> TypeError \<and> c \<noteq> Exception"
  by (cases c) simp_all

lemma invoke_errors:
  assumes "fst (invoke call entry kw h) = Inl e"
  shows "exc_class e \<noteq> KeyError
     \<and> (exc_class e = TypeError \<longrightarrow>
          exc_msg e = [Lit ''type must be str or class, got '', FmtType entry])"
proof -
  have w: "exc_class e \<noteq> KeyError \<and> exc_class e \<noteq> TypeError"
    if "fst (wrap what entry r) = Inl e" for what r
    using that not_Exception_class [of "exc_class e"]
    by (cases r) (auto simp add: wrap_def split: completion.splits if_splits)
  show ?thesis
    using assms w by (auto simp add: invoke_def split: if_splits)
qed

text \<open>
  Claim C1. The checks of \<open>build_from_config\<close> are made in order and each one raises its
  own error: a config that is not a dict gives the type error of line 47; a dict with no
  \<open>type\<close> entry gives the key error of line 49; with a \<open>type\<close> entry, a registry
  argument that is not a Registry gives the type error of line 51; with a Registry, a
  \<open>type\<close> that is a string which \<open>get\<close> does not find gives the key error of line 60,
  whose message holds the string and the name of the registry. For a config that passes
  the four checks none of these errors is raised: no key error at all, and the only type
  error left is the one of line 76 about the kind of the resolved entry.
\<close>

theorem build_from_config_checks:
  "(dict_items ha cfga = None \<longrightarrow>
      fst (build_from_config calla ha cfga rega kwa)
        = Inl (PyExc TypeError [Lit ''config must be type dict, got '', FmtType cfga] None))
   \<and> (dict_items hb cfgb = Some itemsb \<and> ''type'' \<notin> fst ` set itemsb \<longrightarrow>
        fst (build_from_config callb hb cfgb regb kwb)
          = Inl (PyExc KeyError [Lit ''config must contain key type, got '', Fmt cfgb] None))
   \<and> (dict_items hc cfgc = Some itemsc \<and> ''type'' \<in> fst ` set itemsc \<longrightarrow>
        fst (build_from_config callc hc cfgc (NotRegistry x) kwc)
          = Inl (PyExc TypeError [Lit ''registry must be type Registry, got '', FmtType x] None))
   \<and> (dict_items hq cfgd = Some itemsd \<and> map_of itemsd ''type'' = Some (VStr s)
        \<and> get regd s = VNone \<longrightarrow>
        fst (build_from_config calld hq cfgd (IsRegistry regd) kwd)
          = Inl (PyExc KeyError
                   [Fmt (VStr s), Lit '' not found in '', Fmt (VStr (name regd)),
                    Lit '' registry''] None))
   \<and> (dict_items h cfg = Some items \<and> map_of items ''type'' = Some t
        \<and> (\<forall>s. t = VStr s \<longrightarrow> get reg s \<noteq> VNone) \<longrightarrow>
        (\<forall>e. fst (build_from_config call h cfg (IsRegistry reg) kw) = Inl e \<longrightarrow>
           exc_class e \<noteq> KeyError
           \<and> (exc_class e = TypeError \<longrightarrow>
                (\<exists>v. exc_msg e = [Lit ''type must be str or class, got '', FmtType v]))))"
proof (intro conjI impI allI; (elim conjE)?)
  assume "dict_items ha cfga = None"
  then show "fst (build_from_config calla ha cfga rega kwa)
      = Inl (PyExc TypeError [Lit ''config must be type dict, got '', FmtType cfga] None)"
    by (simp add: build_from_config_def prepare_def)
next
  assume "dict_items hb cfgb = Some itemsb" "''type'' \<notin> fst ` set itemsb"
  then show "fst (build_from_config callb hb cfgb regb kwb)
      = Inl (PyExc KeyError [Lit ''config must contain key type, got '', Fmt cfgb] None)"
    by (simp add: build_from_config_def prepare_def)
next
  assume "dict_items hc cfgc = Some itemsc" "''type'' \<in> fst ` set itemsc"
  then show "fst (build_from_config callc hc cfgc (NotRegistry x) kwc)
      = Inl (PyExc TypeError [Lit ''registry must be type Registry, got '', FmtType x] None)"
    by (simp add: build_from_config_def prepare_def)
next
  assume "dict_items hq cfgd = Some itemsd" "map_of itemsd ''type'' = Some (VStr s)"
    "get regd s = VNone"
  then show "fst (build_from_config calld hq cfgd (IsRegistry regd) kwd)
      = Inl (PyExc KeyError
               [Fmt (VStr s), Lit '' not found in '', Fmt (VStr (name regd)),
                Lit '' registry''] None)"
    by (simp add: build_from_config_def prepare_passing resolve_def)
next
  fix e
  assume a: "dict_items h cfg = Some items" "map_of items ''type'' = Some t"
    "\<forall>s. t = VStr s \<longrightarrow> get reg s \<noteq> VNone"
    and e: "fst (build_from_config call h cfg (IsRegistry reg) kw) = Inl e"
  from a(3) obtain entry
    where "resolve reg (rename (length h) (dfs h [] (refs_of cfg)) t) = Inr entry"
    using resolve_found by blast
  with a e obtain kw' h3 where "fst (invoke call entry kw' h3) = Inl e"
    by (simp add: build_from_config_def prepare_passing)
  then have "exc_class e \<noteq> KeyError
     \<and> (exc_class e = TypeError \<longrightarrow>
          exc_msg e = [Lit ''type must be str or class, got '', FmtType entry])"
    by (rule invoke_errors)
  then show "exc_class e \<noteq> KeyError"
    and "exc_class e = TypeError \<Longrightarrow>
         \<exists>v. exc_msg e = [Lit ''type must be str or class, got '', FmtType v]"
    by auto
qed

theorem build_from_config_checks_witness:
  "dict_items [] (VInt 3) = None
   \<and> fst (build_from_config append_layer [] (VInt 3) (IsRegistry ZOO) [])
       = Inl (PyExc TypeError [Lit ''config must be type dict, got '', FmtType (VInt 3)] None)
   \<and> dict_items untyped_store (VRef 0) = Some [(''depth'', VInt 50)]
   \<and> fst (build_from_config append_layer untyped_store (VRef 0) (IsRegistry ZOO) [])
       = Inl (PyExc KeyError [Lit ''config must contain key type, got '', Fmt (VRef 0)] None)
   \<and> fst (build_from_config append_layer config_store (VRef 0) (NotRegistry (VStr ''ZOO'')) [])
       = Inl (PyExc TypeError
                [Lit ''registry must be type Registry, got '', FmtType (VStr ''ZOO'')] None)
   \<and> get MODELS ''InceptionV3'' = VNone
   \<and> fst (build_from_config append_layer config_store (VRef 0) (IsRegistry MODELS) [])
       = Inl (PyExc KeyError
                [Fmt (VStr ''InceptionV3''), Lit '' not found in '', Fmt (VStr ''MODELS''),
                 Lit '' registry''] None)
   \<and> get ZOO ''InceptionV3'' \<noteq> VNone
   \<and> fst (build_from_config append_layer config_store (VRef 0) (IsRegistry ZOO) []) = Inr (VRef 3)"
proof -
  have ev: ?thesis by code_simp
  show ?thesis
  using build_from_config_checks [where ha = "[]" and cfga = "VInt 3" and calla = append_layer
          and rega = "IsRegistry ZOO" and kwa = "[]"
          and hb = untyped_store and cfgb = "VRef 0" and itemsb = "[(''depth'', VInt 50)]"
          and callb = append_layer and regb = "IsRegistry ZOO" and kwb = "[]"
          and hc = config_store and cfgc = "VRef 0"
          and itemsc = "[(''type'', VStr ''InceptionV3''), (''layers'', VRef 1)]"
          and callc = append_layer and x = "VStr ''ZOO''" and kwc = "[]"
          and hq = config_store and cfgd = "VRef 0"
          and itemsd = "[(''type'', VStr ''InceptionV3''), (''layers'', VRef 1)]"
          and s = "''InceptionV3''" and regd = MODELS and calld = append_layer and kwd = "[]"
          and h = config_store and cfg = "VRef 0"
          and items = "[(''type'', VStr ''InceptionV3''), (''layers'', VRef 1)]"
          and t = "VStr ''InceptionV3''" and reg = ZOO and call = append_layer and kw = "[]"] ev
    by simp
qed

lemma wrap_Raised:
  "wrap what entry (Raised e, h) =
     (if is_Exception (exc_class e)
      then (Inl (PyExc Exception [Lit what, Fmt entry, Lit '', with '', FmtExc e] (Some e)), h)
      else (Inl e, h))"
  by (simp add: wrap_def)

text \<open>
  Claim C7, amended. When the resolved class or function raises an exception of the
  \<open>Exception\<close> hierarchy, \<open>build_from_config\<close> raises an \<open>Exception\<close> whose message
  names the failing class (\<open>Failed to init class\<close>) or function
  (\<open>Failed to invoke function\<close>) and the original exception, which is also its
  \<open>__context__\<close>. An exception outside that hierarchy goes through as it is. In both
  cases, and for any resolved entry, \<open>build_from_config\<close> does not return a value when
  the call raised.
\<close>

theorem construction_failure_wrapped:
  "(prepare ha cfga rega kwa = Inr (entrya, kwsa, hpa) \<and> isclass entrya
      \<and> calla entrya kwsa hpa = (Raised ea, hra) \<and> is_Exception (exc_class ea) \<longrightarrow>
      build_from_config calla ha cfga rega kwa
        = (Inl (PyExc Exception
                  [Lit ''Failed to init class '', Fmt entrya, Lit '', with '', FmtExc ea]
                  (Some ea)), hra))
   \<and> (prepare hb cfgb regb kwb = Inr (entryb, kwsb, hpb) \<and> isfunction entryb
        \<and> callb entryb kwsb hpb = (Raised eb, hrb) \<and> is_Exception (exc_class eb) \<longrightarrow>
        build_from_config callb hb cfgb regb kwb
          = (Inl (PyExc Exception
                    [Lit ''Failed to invoke function '', Fmt entryb, Lit '', with '', FmtExc eb]
                    (Some eb)), hrb))
   \<and> (prepare hc cfgc regc kwc = Inr (entryc, kwsc, hpc) \<and> (isclass entryc \<or> isfunction entryc)
        \<and> callc entryc kwsc hpc = (Raised ec, hrc) \<and> \<not> is_Exception (exc_class ec) \<longrightarrow>
        build_from_config callc hc cfgc regc kwc = (Inl ec, hrc))
   \<and> (prepare h cfg reg kw = Inr (entry, kws, hp) \<and> fst (call entry kws hp) = Raised e \<longrightarrow>
        isl (fst (build_from_config call h cfg reg kw)))"
proof (intro conjI impI; (elim conjE)?)
  assume "prepare ha cfga rega kwa = Inr (entrya, kwsa, hpa)" "isclass entrya"
    "calla entrya kwsa hpa = (Raised ea, hra)" "is_Exception (exc_class ea)"
  then show "build_from_config calla ha cfga rega kwa
      = (Inl (PyExc Exception
                [Lit ''Failed to init class '', Fmt entrya, Lit '', with '', FmtExc ea]
                (Some ea)), hra)"
    by (simp add: build_from_config_def invoke_def wrap_Raised)
next
  assume "prepare hb cfgb regb kwb = Inr (entryb, kwsb, hpb)" "isfunction entryb"
    "callb entryb kwsb hpb = (Raised eb, hrb)" "is_Exception (exc_class eb)"
  then show "build_from_config callb hb cfgb regb kwb
      = (Inl (PyExc Exception
                [Lit ''Failed to invoke function '', Fmt entryb, Lit '', with '', FmtExc eb]
                (Some eb)), hrb)"
    by (cases entryb) (simp_all add: build_from_config_def invoke_def wrap_Raised)
next
  assume "prepare hc cfgc regc kwc = Inr (entryc, kwsc, hpc)" "isclass entryc \<or> isfunction entryc"
    "callc entryc kwsc hpc = (Raised ec, hrc)" "\<not> is_Exception (exc_class ec)"
  then show "build_from_config callc hc cfgc regc kwc = (Inl ec, hrc)"
    by (auto simp add: build_from_config_def invoke_def wrap_Raised)
next
  assume "prepare h cfg reg kw = Inr (entry, kws, hp)" "fst (call entry kws hp) = Raised e"
  then show "isl (fst (build_from_config call h cfg reg kw))"
    by (cases "call entry kws hp")
       (auto simp add: build_from_config_def invoke_def wrap_Raised)
qed

theorem construction_failure_wrapped_witness:
  "prepare class_config_store (VRef 0) (IsRegistry ZOO) []
     = Inr (VClass ResNet, [(''depth'', VInt 18)],
            class_config_store @ [ODict [(''depth'', VInt 18)]])
   \<and> build_from_config (always_raises division_by_zero) class_config_store (VRef 0)
        (IsRegistry ZOO) []
       = (Inl (PyExc Exception
                 [Lit ''Failed to init class '', Fmt (VClass ResNet), Lit '', with '',
                  FmtExc division_by_zero] (Some division_by_zero)),
          class_config_store @ [ODict [(''depth'', VInt 18)]])
   \<and> fst (build_from_config (always_raises division_by_zero) config_store (VRef 0)
        (IsRegistry ZOO) [])
       = Inl (PyExc Exception
                [Lit ''Failed to invoke function '', Fmt (VFunction get_inception_v3),
                 Lit '', with '', FmtExc division_by_zero] (Some division_by_zero))
   \<and> fst (build_from_config (always_raises keyboard_interrupt) config_store (VRef 0)
        (IsRegistry ZOO) []) = Inl keyboard_interrupt"
proof -
  have ev: ?thesis by code_simp
  show ?thesis
  using construction_failure_wrapped [where ha = class_config_store and cfga = "VRef 0"
          and rega = "IsRegistry ZOO" and kwa = "[]" and entrya = "VClass ResNet"
          and kwsa = "[(''depth'', VInt 18)]"
          and hpa = "class_config_store @ [ODict [(''depth'', VInt 18)]]"
          and calla = "always_raises division_by_zero" and ea = division_by_zero
          and hra = "class_config_store @ [ODict [(''depth'', VInt 18)]]"
          and hb = config_store and cfgb = "VRef 0" and regb = "IsRegistry ZOO" and kwb = "[]"
          and entryb = "VFunction get_inception_v3" and kwsb = "[(''layers'', VRef 3)]"
          and hpb = "config_store @ [ODict [(''layers'', VRef 3)], OList [VInt 1]]"
          and callb = "always_raises division_by_zero" and eb = division_by_zero
          and hrb = "config_store @ [ODict [(''layers'', VRef 3)], OList [VInt 1]]"
          and hc = config_store and cfgc = "VRef 0" and regc = "IsRegistry ZOO" and kwc = "[]"
          and entryc = "VFunction get_inception_v3" and kwsc = "[(''layers'', VRef 3)]"
          and hpc = "config_store @ [ODict [(''layers'', VRef 3)], OList [VInt 1]]"
          and callc = "always_raises keyboard_interrupt" and ec = keyboard_interrupt
          and hrc = "config_store @ [ODict [(''layers'', VRef 3)], OList [VInt 1]]"
          and h = config_store and cfg = "VRef 0" and reg = "IsRegistry ZOO" and kw = "[]"
          and entry = "VFunction get_inception_v3" and kws = "[(''layers'', VRef 3)]"
          and hp = "config_store @ [ODict [(''layers'', VRef 3)], OList [VInt 1]]"
          and call = "always_raises keyboard_interrupt" and e = keyboard_interrupt] ev
    by simp
qed

text \<open>
  The claim as it is written fails for an exception that \<open>except Exception\<close> does not
  catch: a callee that raises \<open>KeyboardInterrupt\<close> makes \<open>build_from_config\<close> raise
  that very exception, with no wrapper that names the callee.
\<close>

theorem base_exception_not_wrapped_counterexample:
  "fst (build_from_config (always_raises keyboard_interrupt) config_store (VRef 0)
          (IsRegistry ZOO) []) = Inl keyboard_interrupt
   \<and> exc_class keyboard_interrupt \<noteq> Exception
   \<and> exc_context keyboard_interrupt = None"
  by code_simp

section \<open>The default builder: the caller's config\<close>



























end
